theory Spec2Isabelle
  imports Main
begin

section \<open>Results of a call\<close>

text \<open>
  A TypeScript call either returns a value or throws. A thrown \<^verbatim>\<open>new Error(msg)\<close> is
  the value \<open>Inl (Error msg)\<close>, a returned value \<open>v\<close> is \<open>Inr v\<close>. The error object is
  represented by its message.
\<close>

datatype error = Error string

definition throws :: "error + 'a \<Rightarrow> bool" where
  "throws r = (case r of Inl _ \<Rightarrow> True | Inr _ \<Rightarrow> False)"

section \<open>src/service/dialect/esDialect.ts\<close>

text \<open>
  \<^verbatim>\<open>export class EsDialect extends SqlDialect\<close>: the class declares no field, and every
  method body is a single \<^verbatim>\<open>throw new Error("Method not implemented.")\<close> or a single
  \<^verbatim>\<open>return ""\<close>. Each method is embedded under its own name, with the parameters of
  the source in the source's order. \<^verbatim>\<open>pageSize: number\<close> is never read, so its type is
  left as the type parameter \<open>'n\<close>.
\<close>

definition variableList :: "error + string" where
  "variableList = Inl (Error ''Method not implemented.'')"

definition statusList :: "error + string" where
  "statusList = Inl (Error ''Method not implemented.'')"

definition processList :: "error + string" where
  "processList = Inl (Error ''Method not implemented.'')"

definition updateColumn :: "string \<Rightarrow> string \<Rightarrow> string \<Rightarrow> string \<Rightarrow> string \<Rightarrow> error + string" where
  "updateColumn table column type' comment nullable = Inr ''''"

definition showDatabases :: "error + string" where
  "showDatabases = Inr ''''"

definition showTables :: "string \<Rightarrow> error + string" where
  "showTables database = Inr ''''"

definition addColumn :: "string \<Rightarrow> error + string" where
  "addColumn table = Inr ''''"

definition showColumns :: "string \<Rightarrow> string \<Rightarrow> error + string" where
  "showColumns database table = Inr ''''"

definition showViews :: "string \<Rightarrow> error + string" where
  "showViews database = Inr ''''"

definition showSystemViews :: "string \<Rightarrow> error + string" where
  "showSystemViews database = Inr ''''"

definition showUsers :: "error + string" where
  "showUsers = Inr ''''"

definition createUser :: "error + string" where
  "createUser = Inr ''''"

definition showTriggers :: "string \<Rightarrow> error + string" where
  "showTriggers database = Inr ''''"

definition showProcedures :: "string \<Rightarrow> error + string" where
  "showProcedures database = Inr ''''"

definition showFunctions :: "string \<Rightarrow> error + string" where
  "showFunctions database = Inr ''''"

definition buildPageSql :: "string \<Rightarrow> string \<Rightarrow> 'n \<Rightarrow> error + string" where
  "buildPageSql database table pageSize = Inr ''''"

definition countSql :: "string \<Rightarrow> string \<Rightarrow> error + string" where
  "countSql database table = Inr ''''"

definition createDatabase :: "string \<Rightarrow> error + string" where
  "createDatabase database = Inr ''''"

definition truncateDatabase :: "string \<Rightarrow> error + string" where
  "truncateDatabase database = Inr ''''"

definition renameTable :: "string \<Rightarrow> string \<Rightarrow> string \<Rightarrow> error + string" where
  "renameTable database tableName newName = Inr ''''"

definition showTableSource :: "string \<Rightarrow> string \<Rightarrow> error + string" where
  "showTableSource database table = Inr ''''"

definition showViewSource :: "string \<Rightarrow> string \<Rightarrow> error + string" where
  "showViewSource database table = Inr ''''"

definition showProcedureSource :: "string \<Rightarrow> string \<Rightarrow> error + string" where
  "showProcedureSource database name = Inr ''''"

definition showFunctionSource :: "string \<Rightarrow> string \<Rightarrow> error + string" where
  "showFunctionSource database name = Inr ''''"

definition showTriggerSource :: "string \<Rightarrow> string \<Rightarrow> error + string" where
  "showTriggerSource database name = Inr ''''"

definition tableTemplate :: "error + string" where
  "tableTemplate = Inr ''''"

definition viewTemplate :: "error + string" where
  "viewTemplate = Inr ''''"

definition procedureTemplate :: "error + string" where
  "procedureTemplate = Inr ''''"

definition triggerTemplate :: "error + string" where
  "triggerTemplate = Inr ''''"

definition functionTemplate :: "error + string" where
  "functionTemplate = Inr ''''"

subsection \<open>Calling a method by name\<close>

text \<open>
  The operation set of the class: one constructor per method, in the order of the file.
\<close>

datatype Operation =
    VariableList | StatusList | ProcessList | UpdateColumn | ShowDatabases | ShowTables
  | AddColumn | ShowColumns | ShowViews | ShowSystemViews | ShowUsers | CreateUser
  | ShowTriggers | ShowProcedures | ShowFunctions | BuildPageSql | CountSql
  | CreateDatabase | TruncateDatabase | RenameTable | ShowTableSource | ShowViewSource
  | ShowProcedureSource | ShowFunctionSource | ShowTriggerSource | TableTemplate
  | ViewTemplate | ProcedureTemplate | TriggerTemplate | FunctionTemplate

text \<open>
  The arguments of one call: a field for every parameter name that occurs in the class.
  A method reads the fields named like its parameters.
\<close>

record 'n OperationRequest =
  database :: string
  table :: string
  tableName :: string
  newName :: string
  name' :: string
  column :: string
  type' :: string
  comment :: string
  nullable :: string
  pageSize :: 'n

fun invoke :: "Operation \<Rightarrow> 'n OperationRequest \<Rightarrow> error + string" where
  "invoke VariableList r = variableList"
| "invoke StatusList r = statusList"
| "invoke ProcessList r = processList"
| "invoke UpdateColumn r = updateColumn (table r) (column r) (type' r) (comment r) (nullable r)"
| "invoke ShowDatabases r = showDatabases"
| "invoke ShowTables r = showTables (database r)"
| "invoke AddColumn r = addColumn (table r)"
| "invoke ShowColumns r = showColumns (database r) (table r)"
| "invoke ShowViews r = showViews (database r)"
| "invoke ShowSystemViews r = showSystemViews (database r)"
| "invoke ShowUsers r = showUsers"
| "invoke CreateUser r = createUser"
| "invoke ShowTriggers r = showTriggers (database r)"
| "invoke ShowProcedures r = showProcedures (database r)"
| "invoke ShowFunctions r = showFunctions (database r)"
| "invoke BuildPageSql r = buildPageSql (database r) (table r) (pageSize r)"
| "invoke CountSql r = countSql (database r) (table r)"
| "invoke CreateDatabase r = createDatabase (database r)"
| "invoke TruncateDatabase r = truncateDatabase (database r)"
| "invoke RenameTable r = renameTable (database r) (tableName r) (newName r)"
| "invoke ShowTableSource r = showTableSource (database r) (table r)"
| "invoke ShowViewSource r = showViewSource (database r) (table r)"
| "invoke ShowProcedureSource r = showProcedureSource (database r) (name' r)"
| "invoke ShowFunctionSource r = showFunctionSource (database r) (name' r)"
| "invoke ShowTriggerSource r = showTriggerSource (database r) (name' r)"
| "invoke TableTemplate r = tableTemplate"
| "invoke ViewTemplate r = viewTemplate"
| "invoke ProcedureTemplate r = procedureTemplate"
| "invoke TriggerTemplate r = triggerTemplate"
| "invoke FunctionTemplate r = functionTemplate"

text \<open>The three methods whose body is the \<^verbatim>\<open>throw\<close> statement.\<close>

definition notImplemented :: "Operation set" where
  "notImplemented = {VariableList, StatusList, ProcessList}"

subsection \<open>The result vocabulary of the specification\<close>

text \<open>
  Modelled from the spec: the result type \<open>StatementResult\<close>, ``either
  \<open>Generated(text)\<close> or \<open>Unsupported(reason)\<close>''. The sources declare no such type: the
  methods above return \<^verbatim>\<open>string\<close>.
\<close>

datatype StatementResult = Generated string | Unsupported string

text \<open>
  Modelled from the spec: the outcome of a method read as a \<open>StatementResult\<close>. The string
  a method returns is the statement text, the empty string included (``an empty string
  is indistinguishable from a valid empty statement''); an \<open>Unsupported\<close> result is
  ``always returned, never thrown'', so a thrown error is no \<open>StatementResult\<close>.
\<close>

fun statementResult :: "error + string \<Rightarrow> StatementResult option" where
  "statementResult (Inr text) = Some (Generated text)"
| "statementResult (Inl e) = None"

text \<open>
  Modelled from the spec: whether an outcome is an \<open>Unsupported\<close> result, and whether it
  is a \<open>Generated\<close> one.
\<close>

fun isUnsupported :: "StatementResult option \<Rightarrow> bool" where
  "isUnsupported (Some (Unsupported reason)) = True"
| "isUnsupported _ = False"

fun isGenerated :: "StatementResult option \<Rightarrow> bool" where
  "isGenerated (Some (Generated text)) = True"
| "isGenerated _ = False"

text \<open>
  Modelled from the spec: the capability descriptor \<open>supports(operation) -> bool\<close>, which
  the sources do not contain, and its agreement with the generation call. The
  descriptor's answer for an operation is the parameter \<open>supported\<close>, and \<open>r\<close> is the
  outcome of calling the operation. They agree when all three clauses hold: not
  supported gives \<open>Unsupported\<close>; supported does not throw; never not supported and yet
  \<open>Generated\<close>.
\<close>

definition agree :: "bool \<Rightarrow> error + string \<Rightarrow> bool" where
  "agree supported r =
     ((\<not> supported \<longrightarrow> isUnsupported (statementResult r)) \<and>
      (supported \<longrightarrow> \<not> throws r) \<and>
      \<not> (\<not> supported \<and> isGenerated (statementResult r)))"

section \<open>src/provider/treeDataProvider.ts\<close>

subsection \<open>Plain objects\<close>

text \<open>
  A plain JavaScript object with string keys is an association list of its own
  properties. \<open>setProperty\<close> is the assignment \<^verbatim>\<open>obj[k] = v\<close>: an existing property
  keeps its place and takes the new value, a new one is added at the end. The object
  spread \<^verbatim>\<open>{ ...a, ...b }\<close> starts from the empty object and assigns the properties of
  \<open>a\<close> and then those of \<open>b\<close>, each in order. (JavaScript lists keys that look like
  array indices first; the list does not model that, and nothing below depends on the
  order of the keys.)
\<close>

type_synonym 'v obj = "(string \<times> 'v) list"

fun setProperty :: "'v obj \<Rightarrow> string \<Rightarrow> 'v \<Rightarrow> 'v obj" where
  "setProperty [] k v = [(k, v)]"
| "setProperty ((k', v') # ps) k v =
     (if k' = k then (k', v) # ps else (k', v') # setProperty ps k v)"

definition assignAll :: "'v obj \<Rightarrow> 'v obj \<Rightarrow> 'v obj" where
  "assignAll target source = fold (\<lambda>(k, v) acc. setProperty acc k v) source target"

definition spread :: "'v obj \<Rightarrow> 'v obj \<Rightarrow> 'v obj" where
  "spread a b = assignAll (assignAll [] a) b"

definition keys :: "'v obj \<Rightarrow> string list" where
  "keys ob = map fst ob"

subsection \<open>Nodes\<close>

text \<open>
  The classes \<open>Node\<close>, \<open>ConnectionNode\<close>, \<open>EsConnectionNode\<close>, \<open>RedisConnectionNode\<close>,
  \<open>SSHConnectionNode\<close> and \<open>InfoNode\<close> are imported; their bodies are not part of the
  sources at hand. A stored connection (\<open>connectInfo\<close>, typed \<open>Node\<close> in the source) is
  the record of the fields the provider reads from it; the type \<open>'s\<close> is that of the
  \<open>ssh\<close> configuration, which is only passed on.

  A node object is the \<^verbatim>\<open>new\<close> expression that made it, with its arguments, together
  with the fields \<open>provider\<close>, \<open>global\<close>, \<open>context\<close> and \<open>parent\<close> as far as the provider
  determines them: a field is \<open>None\<close> as long as the provider has neither assigned nor
  read it. \<open>new e\<close> is the object right after its construction; a \<^verbatim>\<open>new\<close> expression
  is taken to return its object, the constructors not being in the sources. \<open>OtherNode\<close> stands for
  a node of a class this file does not construct (the children an element returns).
  \<open>nodeKey\<close> is the connection key a connection node was constructed with.
\<close>

record 's ConnectInfo =
  dbType :: string
  name :: string
  ssh :: 's

datatype 's NewNode =
    EsConnectionNode string "'s ConnectInfo"
  | RedisConnectionNode string "'s ConnectInfo"
  | SSHConnectionNode string 's string
  | ConnectionNode string "'s ConnectInfo"
  | InfoNode error
  | OtherNode string

datatype MementoRef = WorkspaceState | GlobalState

datatype 's Node = Node
  (made: "'s NewNode")
  (provider: "string option")
  (global: "bool option")
  (context': "MementoRef option")
  (parent: "'s Node option")

definition new :: "'s NewNode \<Rightarrow> 's Node" where
  "new e = Node e None None None None"

fun nodeKey :: "'s Node \<Rightarrow> string option" where
  "nodeKey (Node (EsConnectionNode key connectInfo) _ _ _ _) = Some key"
| "nodeKey (Node (RedisConnectionNode key connectInfo) _ _ _ _) = Some key"
| "nodeKey (Node (SSHConnectionNode key sshConfig nm) _ _ _ _) = Some key"
| "nodeKey (Node (ConnectionNode key connectInfo) _ _ _ _) = Some key"
| "nodeKey (Node (InfoNode err) _ _ _ _) = None"
| "nodeKey (Node (OtherNode label) _ _ _ _) = None"

text \<open>
  What the file takes from its imports: the three members of the enum \<open>DatabaseType\<close>
  that it names (strings, from \<^verbatim>\<open>../common/constants\<close>); the value a class's constructor
  leaves in the field \<open>global\<close> of the new object (\<open>None\<close> for \<^verbatim>\<open>undefined\<close>); and the
  method \<open>getChildren()\<close> of a node, which resolves to a list of nodes or rejects.
\<close>

record 's Imports =
  ES :: string
  REDIS :: string
  SSH :: string
  constructedGlobal :: "'s NewNode \<Rightarrow> bool option"
  nodeGetChildren :: "'s Node \<Rightarrow> error + 's Node list"

subsection \<open>The provider\<close>

text \<open>
  A \<open>vscode.Memento\<close> maps a storage key to the stored value, here an object of
  connections by connection key; \<open>get(key, defaultValue)\<close> is \<open>mementoGet\<close>. The provider
  holds the extension context with its two mementos (field \<open>context''\<close>; \<open>context'\<close> is
  the field of a node) and its \<open>connectionKey\<close>.
\<close>

type_synonym 's Memento = "string \<Rightarrow> 's ConnectInfo obj option"

definition mementoGet :: "'s Memento \<Rightarrow> string \<Rightarrow> 's ConnectInfo obj \<Rightarrow> 's ConnectInfo obj" where
  "mementoGet m k defaultValue = (case m k of Some v \<Rightarrow> v | None \<Rightarrow> defaultValue)"

record 's ExtensionContext =
  globalState :: "'s Memento"
  workspaceState :: "'s Memento"

record 's DbTreeDataProvider =
  context'' :: "'s ExtensionContext"
  connectionKey :: string

text \<open>
  \<open>getNode\<close> (lines 107 to 125): the class is chosen by comparing \<open>dbType\<close> with the three
  enum members in the order of the source, every other value taking the last branch;
  then \<open>provider\<close>, \<open>global\<close> and \<open>context\<close> are assigned. The reference \<^verbatim>\<open>this\<close> stored
  in \<open>provider\<close> is represented by the provider's \<open>connectionKey\<close>, the memento stored in
  \<open>context\<close> by its name.
\<close>

definition getNode :: "'s Imports \<Rightarrow> 's DbTreeDataProvider \<Rightarrow> 's ConnectInfo \<Rightarrow> string \<Rightarrow> 's Node" where
  "getNode M this connectInfo key =
     (let e = (if dbType connectInfo = ES M then EsConnectionNode key connectInfo
               else if dbType connectInfo = REDIS M then RedisConnectionNode key connectInfo
               else if dbType connectInfo = SSH M
                 then SSHConnectionNode key (ssh connectInfo) (name connectInfo)
               else ConnectionNode key connectInfo);
          g = (if constructedGlobal M e \<noteq> Some False then Some True
               else constructedGlobal M e)
      in Node e (Some (connectionKey this)) g
           (Some (if g = Some False then WorkspaceState else GlobalState)) None)"

text \<open>
  \<open>getConnectionNodes\<close> (lines 93 to 105). \<^verbatim>\<open>Object.keys(connections).map(key => ...)\<close>
  visits every property of \<open>connections\<close> once, with \<^verbatim>\<open>connections[key]\<close> its value.
\<close>

definition getConnectionNodes :: "'s Imports \<Rightarrow> 's DbTreeDataProvider \<Rightarrow> 's Node list" where
  "getConnectionNodes M this =
     (let globalConnections = mementoGet (globalState (context'' this)) (connectionKey this) [];
          workspaceConnections = mementoGet (workspaceState (context'' this)) (connectionKey this) [];
          connections = spread globalConnections workspaceConnections
      in map (\<lambda>(key, connectInfo). getNode M this connectInfo key) connections)"

text \<open>
  \<open>getChildren\<close> (lines 29 to 42). The promise it returns is \<open>Inr\<close> of the list it
  resolves to, or \<open>Inl\<close> of the error it rejects with. Without an element the
  connection nodes are returned. Otherwise the element's own \<open>getChildren()\<close> is awaited
  inside \<^verbatim>\<open>try\<close>: when it resolves, \<^verbatim>\<open>child.parent = element\<close> is assigned on every
  child and the children are returned; when it rejects, the \<^verbatim>\<open>catch\<close> returns the list
  of one \<^verbatim>\<open>new InfoNode(error)\<close>. The source assigns \<open>parent\<close> in place, on the objects
  of the array it returns; here the list of the updated children is returned.
\<close>

definition getChildren :: "'s Imports \<Rightarrow> 's DbTreeDataProvider \<Rightarrow> 's Node option \<Rightarrow> error + 's Node list" where
  "getChildren M this element =
     (case element of
        None \<Rightarrow> Inr (getConnectionNodes M this)
      | Some el \<Rightarrow>
          (case nodeGetChildren M el of
             Inr children \<Rightarrow>
               Inr (map (\<lambda>child. Node (made child) (provider child) (global child)
                                   (context' child) (Some el)) children)
           | Inl err \<Rightarrow> Inr [new (InfoNode err)]))"

subsection \<open>Inputs of the examples\<close>

definition exampleRequest :: "int OperationRequest" where
  "exampleRequest =
     \<lparr>database = ''shop'', table = ''orders'', tableName = ''orders'', newName = ''orders_old'',
      name' = ''audit'', column = ''total'', type' = ''integer'', comment = '''',
      nullable = ''YES'', pageSize = 20\<rparr>"

definition exampleImports :: "unit Imports" where
  "exampleImports =
     \<lparr>ES = ''ElasticSearch'', REDIS = ''Redis'', SSH = ''SSH'',
      constructedGlobal = (\<lambda>e. None),
      nodeGetChildren = (\<lambda>n. case made n of
          ConnectionNode key connectInfo \<Rightarrow> Inr [new (OtherNode ''schema_a''), new (OtherNode ''schema_b'')]
        | _ \<Rightarrow> Inl (Error ''connect ECONNREFUSED''))\<rparr>"

definition mysqlInfo :: "unit ConnectInfo" where
  "mysqlInfo = \<lparr>dbType = ''MySQL'', name = ''local'', ssh = ()\<rparr>"

definition esInfo :: "unit ConnectInfo" where
  "esInfo = \<lparr>dbType = ''ElasticSearch'', name = ''search'', ssh = ()\<rparr>"

definition redisInfo :: "unit ConnectInfo" where
  "redisInfo = \<lparr>dbType = ''Redis'', name = ''cache'', ssh = ()\<rparr>"

definition futureInfo :: "unit ConnectInfo" where
  "futureInfo = \<lparr>dbType = ''Future_Unlisted'', name = ''next'', ssh = ()\<rparr>"

definition exampleProvider :: "unit DbTreeDataProvider" where
  "exampleProvider =
     \<lparr>context'' =
        \<lparr>globalState = [''database.connections'' \<mapsto> [(''a'', mysqlInfo), (''b'', esInfo)]],
         workspaceState = [''database.connections'' \<mapsto> [(''b'', redisInfo), (''c'', futureInfo)]]\<rparr>,
      connectionKey = ''database.connections''\<rparr>"

section \<open>Properties of EsDialect\<close>

lemmas EsDialect_defs =
  variableList_def statusList_def processList_def updateColumn_def showDatabases_def
  showTables_def addColumn_def showColumns_def showViews_def showSystemViews_def
  showUsers_def createUser_def showTriggers_def showProcedures_def showFunctions_def
  buildPageSql_def countSql_def createDatabase_def truncateDatabase_def renameTable_def
  showTableSource_def showViewSource_def showProcedureSource_def showFunctionSource_def
  showTriggerSource_def tableTemplate_def viewTemplate_def procedureTemplate_def
  triggerTemplate_def functionTemplate_def

lemma invoke_notImplemented:
  "op \<in> notImplemented \<Longrightarrow> invoke op r = Inl (Error ''Method not implemented.'')"
  by (cases op) (simp_all add: notImplemented_def EsDialect_defs)

lemma invoke_implemented:
  "op \<notin> notImplemented \<Longrightarrow> invoke op r = Inr ''''"
  by (cases op) (simp_all add: notImplemented_def EsDialect_defs)

text \<open>
  C1. The claim is that every operation called on EsDialect returns an Unsupported
  result and never throws. In the source the methods return plain strings, so no call
  returns an Unsupported result. What holds: every operation other than variableList,
  statusList and processList returns the empty string, for every request, and does not
  throw.
\<close>

theorem EsDialect_returns_empty:
  "op \<notin> notImplemented \<Longrightarrow> invoke op r = Inr '''' \<and> \<not> throws (invoke op r)"
  by (simp add: invoke_implemented throws_def)

theorem EsDialect_returns_empty_witness:
  "ShowTriggers \<notin> notImplemented \<and> invoke ShowTriggers exampleRequest = Inr ''''
     \<and> \<not> throws (invoke ShowTriggers exampleRequest)"
  using EsDialect_returns_empty [of ShowTriggers exampleRequest]
  by (simp add: notImplemented_def throws_def)

text \<open>
  C1, at concrete calls: \<open>showTriggers("shop")\<close> returns the empty string, a plain
  string and no Unsupported result, and \<open>variableList()\<close> throws.
\<close>

theorem EsDialect_unsupported_counterexample:
  "invoke ShowTriggers exampleRequest = Inr '''' \<and>
   invoke VariableList exampleRequest = Inl (Error ''Method not implemented.'') \<and>
   throws (invoke VariableList exampleRequest)"
  by (simp add: EsDialect_defs throws_def exampleRequest_def)

text \<open>
  C2. The claim is that a capability descriptor and the generation methods agree on
  every operation. EsDialect has no descriptor, so its answer is the parameter
  \<open>supported\<close>. What holds: for every operation other than variableList, statusList and
  processList the call returns the empty string and does not throw, so it agrees with
  the descriptor exactly when the descriptor answers that the operation is supported;
  an answer of unsupported is never matched by an Unsupported result.
\<close>

theorem EsDialect_agree_iff_supported:
  "op \<notin> notImplemented \<Longrightarrow> agree supported (invoke op r) = supported"
  by (simp add: invoke_implemented agree_def throws_def)

theorem EsDialect_agree_iff_supported_witness:
  "ShowTables \<notin> notImplemented \<and> agree True (invoke ShowTables exampleRequest)
     \<and> \<not> agree False (invoke ShowTables exampleRequest)"
  using EsDialect_agree_iff_supported [of ShowTables True exampleRequest]
    EsDialect_agree_iff_supported [of ShowTables False exampleRequest]
  by (simp add: notImplemented_def)

text \<open>
  C2, at concrete calls: with \<open>showTriggers\<close> declared unsupported, as the specification's
  example for the document store has it, the call still returns a string; and for
  \<open>variableList\<close> neither answer of a descriptor agrees with the call.
\<close>

theorem EsDialect_agree_counterexample:
  "\<not> agree False (invoke ShowTriggers exampleRequest) \<and>
   \<not> agree False (invoke VariableList exampleRequest) \<and>
   \<not> agree True (invoke VariableList exampleRequest)"
  by (simp add: EsDialect_defs agree_def throws_def exampleRequest_def)

text \<open>
  C4. The claim is that the five source-introspection operations of EsDialect return an
  Unsupported result and never an empty string. What holds: for every database and
  object name each of the five returns the empty string.
\<close>

theorem EsDialect_show_source_empty:
  "showTableSource db tbl = Inr '''' \<and> showViewSource db tbl = Inr '''' \<and>
   showProcedureSource db nm = Inr '''' \<and> showFunctionSource db nm = Inr '''' \<and>
   showTriggerSource db nm = Inr ''''"
  by (simp add: EsDialect_defs)

text \<open>
  C4, at concrete calls: \<open>showTableSource("shop", "orders")\<close> and
  \<open>showTriggerSource("shop", "audit")\<close> return the empty string.
\<close>

theorem EsDialect_show_source_counterexample:
  "showTableSource ''shop'' ''orders'' = Inr '''' \<and>
   showTriggerSource ''shop'' ''audit'' = Inr ''''"
  by (simp add: showTableSource_def showTriggerSource_def)

text \<open>
  C5. The claim is that buildPageSql generates a statement with offset \<open>i * p\<close> for page
  size \<open>p > 0\<close> and page index \<open>i\<close>, and returns InvalidRequest for \<open>p \<le> 0\<close>. The method
  of EsDialect has no page index among its parameters. What holds: for every database,
  table and page size, positive or not, it returns the empty string.
\<close>

theorem EsDialect_buildPageSql_empty:
  "buildPageSql db tbl p = Inr ''''"
  by (simp add: buildPageSql_def)

text \<open>
  C5, at concrete calls: with page size 20 the statement is empty, so it holds no
  offset, and with page size 0 and -1 the call returns the same string instead of
  failing.
\<close>

theorem EsDialect_buildPageSql_counterexample:
  "buildPageSql ''shop'' ''orders'' (20 :: int) = Inr '''' \<and>
   buildPageSql ''shop'' ''orders'' (0 :: int) = Inr '''' \<and>
   buildPageSql ''shop'' ''orders'' (- 1 :: int) = Inr '''' \<and>
   \<not> throws (buildPageSql ''shop'' ''orders'' (0 :: int))"
  by (simp add: buildPageSql_def throws_def)

text \<open>
  C7. The claim is that a request with an empty required field is answered by
  InvalidRequest before any text is generated. EsDialect validates nothing. What holds:
  the result of an operation is the same for every two requests, so an empty name is
  treated like any other.
\<close>

theorem EsDialect_request_ignored:
  "invoke op r1 = invoke op r2"
  by (cases op) (simp_all add: EsDialect_defs)

text \<open>
  C7, at concrete calls: \<open>showTables("")\<close> returns normally, and the request with an empty
  database and table name gets the result of the request with both names given.
\<close>

theorem EsDialect_empty_field_counterexample:
  "showTables '''' = Inr '''' \<and> \<not> throws (showTables '''') \<and>
   invoke ShowColumns (exampleRequest\<lparr>database := '''', table := ''''\<rparr>) =
     invoke ShowColumns exampleRequest"
  by (simp add: EsDialect_defs throws_def)

section \<open>Properties of the tree provider\<close>

lemma keys_Nil: "keys [] = []"
  by (simp add: keys_def)

lemma keys_Cons: "keys (p # ps) = fst p # keys ps"
  by (simp add: keys_def)

lemma setProperty_keys:
  "keys (setProperty ps k v) = (if k \<in> set (keys ps) then keys ps else keys ps @ [k])"
  by (induction ps) (auto simp: keys_Nil keys_Cons)

lemma map_of_setProperty: "map_of (setProperty ps k v) = (map_of ps)(k \<mapsto> v)"
  by (induction ps) (auto simp: fun_eq_iff)

lemma distinct_assignAll:
  "distinct (keys t) \<Longrightarrow> distinct (keys (assignAll t s))"
  unfolding assignAll_def
  by (induction s arbitrary: t) (auto simp: setProperty_keys)

lemma set_keys_assignAll:
  "set (keys (assignAll t s)) = set (keys t) \<union> set (keys s)"
  unfolding assignAll_def
proof (induction s arbitrary: t)
  case Nil
  show ?case by (simp add: keys_Nil)
next
  case (Cons p s)
  obtain k v where p: "p = (k, v)" by (cases p)
  have "set (keys (fold (\<lambda>(k, v) acc. setProperty acc k v) s (setProperty t k v)))
        = set (keys (setProperty t k v)) \<union> set (keys s)"
    by (rule Cons.IH)
  then show ?case
    by (auto simp: p setProperty_keys keys_Cons)
qed

lemma map_of_assignAll:
  "map_of (assignAll t s) = map_of t ++ map_of (rev s)"
  unfolding assignAll_def
proof (induction s arbitrary: t)
  case Nil
  show ?case by simp
next
  case (Cons p s)
  obtain k v where p: "p = (k, v)" by (cases p)
  show ?case
    by (simp add: p Cons.IH map_of_setProperty fun_eq_iff map_add_def split: option.splits)
qed

lemma map_of_rev_distinct:
  "distinct (keys xs) \<Longrightarrow> map_of (rev xs) = map_of xs"
proof (induction xs)
  case Nil
  show ?case by simp
next
  case (Cons p xs)
  obtain k v where p: "p = (k, v)" by (cases p)
  from Cons.prems have k: "k \<notin> fst ` set xs" and d: "distinct (keys xs)"
    by (auto simp: p keys_Cons keys_def)
  from k have "map_of xs k = None"
    by (simp add: map_of_eq_None_iff)
  with Cons.IH [OF d] show ?case
    by (auto simp: p fun_eq_iff map_add_def split: option.splits)
qed

lemma distinct_spread: "distinct (keys (spread a b))"
  unfolding spread_def by (intro distinct_assignAll) (simp add: keys_Nil)

lemma set_keys_spread: "set (keys (spread a b)) = set (keys a) \<union> set (keys b)"
  by (simp add: spread_def set_keys_assignAll keys_Nil)

lemma map_of_spread:
  "distinct (keys a) \<Longrightarrow> distinct (keys b) \<Longrightarrow> map_of (spread a b) = map_of a ++ map_of b"
  by (simp add: spread_def map_of_assignAll map_of_rev_distinct)

lemma made_getNode:
  "made (getNode M this connectInfo key) =
     (if dbType connectInfo = ES M then EsConnectionNode key connectInfo
      else if dbType connectInfo = REDIS M then RedisConnectionNode key connectInfo
      else if dbType connectInfo = SSH M
        then SSHConnectionNode key (ssh connectInfo) (name connectInfo)
      else ConnectionNode key connectInfo)"
  by (simp add: getNode_def Let_def)

lemma nodeKey_getNode: "nodeKey (getNode M this connectInfo key) = Some key"
  by (simp add: getNode_def Let_def)

lemma nodeKey_getConnectionNodes:
  "map nodeKey (getConnectionNodes M this) =
     map Some (keys (spread
       (mementoGet (globalState (context'' this)) (connectionKey this) [])
       (mementoGet (workspaceState (context'' this)) (connectionKey this) [])))"
  by (simp add: getConnectionNodes_def Let_def keys_def nodeKey_getNode case_prod_beta comp_def)

text \<open>
  C3. The claim is that resolving a backend kind without a registered dialect fails with
  UnknownBackend and never falls back to a default. \<open>getNode\<close> has no failing branch.
  What holds: a connection whose \<open>dbType\<close> is none of ES, REDIS and SSH, whatever
  else it is, resolves to the default \<open>ConnectionNode\<close>.
\<close>

theorem getNode_default:
  "dbType connectInfo \<notin> {ES M, REDIS M, SSH M} \<Longrightarrow>
     made (getNode M this connectInfo key) = ConnectionNode key connectInfo"
  by (simp add: made_getNode)

theorem getNode_default_witness:
  "dbType mysqlInfo \<notin> {ES exampleImports, REDIS exampleImports, SSH exampleImports} \<and>
   made (getNode exampleImports exampleProvider mysqlInfo ''a'') = ConnectionNode ''a'' mysqlInfo"
  using getNode_default [of mysqlInfo exampleImports exampleProvider "''a''"]
  by (simp add: mysqlInfo_def exampleImports_def)

text \<open>
  C3, at a concrete connection: the unlisted type \<open>Future_Unlisted\<close> resolves to a
  \<open>ConnectionNode\<close>, with its fields assigned like those of any other connection.
\<close>

theorem getNode_unknown_counterexample:
  "getNode exampleImports exampleProvider futureInfo ''c'' =
     Node (ConnectionNode ''c'' futureInfo) (Some ''database.connections'') (Some True)
       (Some GlobalState) None"
  by (simp add: getNode_def Let_def futureInfo_def exampleImports_def exampleProvider_def)

text \<open>
  C9. For an element, \<open>getChildren\<close> of the provider never rejects. When the element's own
  \<open>getChildren()\<close> rejects with an error, the provider resolves to the list of one
  \<open>InfoNode\<close> made from that error. When it resolves to a list of children, the provider
  resolves to a list of the same length whose members are these children, in order,
  each with \<open>parent\<close> set to the element and its other fields as they were.
\<close>

theorem getChildren_element:
  "(\<exists>ns. getChildren M this (Some el) = Inr ns) \<and>
   (\<forall>err. nodeGetChildren M el = Inl err \<longrightarrow>
      getChildren M this (Some el) = Inr [new (InfoNode err)]) \<and>
   (\<forall>children. nodeGetChildren M el = Inr children \<longrightarrow>
      (\<exists>ns. getChildren M this (Some el) = Inr ns \<and> length ns = length children \<and>
        (\<forall>i < length children.
           parent (ns ! i) = Some el \<and> made (ns ! i) = made (children ! i) \<and>
           provider (ns ! i) = provider (children ! i) \<and>
           global (ns ! i) = global (children ! i) \<and>
           context' (ns ! i) = context' (children ! i))))"
  by (cases "nodeGetChildren M el") (simp_all add: getChildren_def)

theorem getChildren_element_witness:
  "nodeGetChildren exampleImports (new (EsConnectionNode ''b'' esInfo)) =
     Inl (Error ''connect ECONNREFUSED'') \<and>
   getChildren exampleImports exampleProvider (Some (new (EsConnectionNode ''b'' esInfo))) =
     Inr [new (InfoNode (Error ''connect ECONNREFUSED''))] \<and>
   nodeGetChildren exampleImports (new (ConnectionNode ''a'' mysqlInfo)) =
     Inr [new (OtherNode ''schema_a''), new (OtherNode ''schema_b'')] \<and>
   getChildren exampleImports exampleProvider (Some (new (ConnectionNode ''a'' mysqlInfo))) =
     Inr [Node (OtherNode ''schema_a'') None None None (Some (new (ConnectionNode ''a'' mysqlInfo))),
          Node (OtherNode ''schema_b'') None None None (Some (new (ConnectionNode ''a'' mysqlInfo)))]"
proof -
  let ?es = "new (EsConnectionNode ''b'' esInfo) :: unit Node"
  let ?my = "new (ConnectionNode ''a'' mysqlInfo) :: unit Node"
  have e: "nodeGetChildren exampleImports ?es = Inl (Error ''connect ECONNREFUSED'')"
    by (simp add: exampleImports_def new_def)
  have m: "nodeGetChildren exampleImports ?my =
      Inr [new (OtherNode ''schema_a''), new (OtherNode ''schema_b'')]"
    by (simp add: exampleImports_def new_def)
  from getChildren_element [of exampleImports exampleProvider ?es] e
  have 1: "getChildren exampleImports exampleProvider (Some ?es) =
      Inr [new (InfoNode (Error ''connect ECONNREFUSED''))]"
    by simp
  from getChildren_element [of exampleImports exampleProvider ?my] m
  obtain ns where ns: "getChildren exampleImports exampleProvider (Some ?my) = Inr ns"
      "length ns = 2"
      "\<forall>i < 2. parent (ns ! i) = Some ?my \<and>
         made (ns ! i) = made ([new (OtherNode ''schema_a''), new (OtherNode ''schema_b'')] ! i) \<and>
         provider (ns ! i) = provider ([new (OtherNode ''schema_a''), new (OtherNode ''schema_b'') :: unit Node] ! i) \<and>
         global (ns ! i) = global ([new (OtherNode ''schema_a''), new (OtherNode ''schema_b'') :: unit Node] ! i) \<and>
         context' (ns ! i) = context' ([new (OtherNode ''schema_a''), new (OtherNode ''schema_b'') :: unit Node] ! i)"
    by auto
  from ns(2) obtain n0 n1 where l: "ns = [n0, n1]"
    by (cases ns; cases "tl ns") auto
  from ns(3) have "ns ! 0 = Node (OtherNode ''schema_a'') None None None (Some ?my)"
    by (intro Node.expand) (simp add: new_def)
  moreover from ns(3) have "ns ! 1 = Node (OtherNode ''schema_b'') None None None (Some ?my)"
    by (intro Node.expand) (simp add: new_def)
  ultimately have 2: "ns = [Node (OtherNode ''schema_a'') None None None (Some ?my),
      Node (OtherNode ''schema_b'') None None None (Some ?my)]"
    by (simp add: l)
  from e m 1 2 ns(1) show ?thesis by simp
qed

text \<open>
  C10. The nodes returned by \<open>getConnectionNodes\<close> carry pairwise different connection
  keys, and these keys are exactly the keys of the global and the workspace
  connections stored under the provider's \<open>connectionKey\<close>: one node per key. The node of
  a key that the workspace store holds is the node \<open>getNode\<close> makes from the workspace
  entry, also when the global store holds the key as well; the node of any other key
  is made from the global entry.
\<close>

theorem getConnectionNodes_one_per_key:
  assumes g: "g = mementoGet (globalState (context'' this)) (connectionKey this) []"
    and w: "w = mementoGet (workspaceState (context'' this)) (connectionKey this) []"
    and dg: "distinct (keys g)" and dw: "distinct (keys w)"
  shows "distinct (map nodeKey (getConnectionNodes M this)) \<and>
    set (map nodeKey (getConnectionNodes M this)) = Some ` (set (keys g) \<union> set (keys w)) \<and>
    length (getConnectionNodes M this) = card (set (keys g) \<union> set (keys w)) \<and>
    (\<forall>n \<in> set (getConnectionNodes M this). \<forall>k connectInfo.
       nodeKey n = Some k \<and> (k, connectInfo) \<in> set w \<longrightarrow> n = getNode M this connectInfo k) \<and>
    (\<forall>n \<in> set (getConnectionNodes M this). \<forall>k connectInfo.
       nodeKey n = Some k \<and> k \<notin> set (keys w) \<and> (k, connectInfo) \<in> set g \<longrightarrow>
         n = getNode M this connectInfo k)"
proof -
  let ?c = "spread g w"
  let ?ns = "getConnectionNodes M this"
  have ns: "?ns = map (\<lambda>(key, connectInfo). getNode M this connectInfo key) ?c"
    by (simp add: getConnectionNodes_def Let_def g w)
  have nk: "map nodeKey ?ns = map Some (keys ?c)"
    by (simp add: nodeKey_getConnectionNodes g w)
  have d: "distinct (keys ?c)"
    by (rule distinct_spread)
  have 1: "distinct (map nodeKey ?ns)"
    by (simp add: nk distinct_map d)
  have 2: "set (map nodeKey ?ns) = Some ` (set (keys g) \<union> set (keys w))"
    by (simp only: nk set_map set_keys_spread)
  have "length ?ns = length (keys ?c)"
    by (simp add: ns keys_def)
  also have "\<dots> = card (set (keys ?c))"
    using d by (simp add: distinct_card)
  finally have 3: "length ?ns = card (set (keys g) \<union> set (keys w))"
    by (simp add: set_keys_spread)
  have look: "n = getNode M this connectInfo k"
    if n: "n \<in> set ?ns" and k: "nodeKey n = Some k"
      and m: "(map_of g ++ map_of w) k = Some connectInfo" for n k connectInfo
  proof -
    from n obtain k' i' where e: "(k', i') \<in> set ?c" and n': "n = getNode M this i' k'"
      by (auto simp: ns)
    from k n' have "k' = k"
      by (simp add: nodeKey_getNode)
    with e d have "map_of ?c k = Some i'"
      by (simp add: keys_def)
    with m have "i' = connectInfo"
      by (simp add: map_of_spread dg dw)
    with n' \<open>k' = k\<close> show ?thesis by simp
  qed
  have 4: "\<forall>n \<in> set ?ns. \<forall>k connectInfo.
       nodeKey n = Some k \<and> (k, connectInfo) \<in> set w \<longrightarrow> n = getNode M this connectInfo k"
  proof (intro ballI allI impI)
    fix n k connectInfo
    assume n: "n \<in> set ?ns" and h: "nodeKey n = Some k \<and> (k, connectInfo) \<in> set w"
    from h dw have "map_of w k = Some connectInfo"
      by (simp add: keys_def)
    then have "(map_of g ++ map_of w) k = Some connectInfo"
      by (simp add: map_add_def)
    with n h show "n = getNode M this connectInfo k"
      by (intro look) simp_all
  qed
  have 5: "\<forall>n \<in> set ?ns. \<forall>k connectInfo.
       nodeKey n = Some k \<and> k \<notin> set (keys w) \<and> (k, connectInfo) \<in> set g \<longrightarrow>
         n = getNode M this connectInfo k"
  proof (intro ballI allI impI)
    fix n k connectInfo
    assume n: "n \<in> set ?ns"
      and h: "nodeKey n = Some k \<and> k \<notin> set (keys w) \<and> (k, connectInfo) \<in> set g"
    from h dg have "map_of g k = Some connectInfo"
      by (simp add: keys_def)
    moreover from h have "map_of w k = None"
      by (simp add: map_of_eq_None_iff keys_def)
    ultimately have "(map_of g ++ map_of w) k = Some connectInfo"
      by (simp add: map_add_def)
    with n h show "n = getNode M this connectInfo k"
      by (intro look) simp_all
  qed
  from 1 2 3 4 5 show ?thesis by blast
qed

theorem getConnectionNodes_one_per_key_witness:
  "distinct (keys [(''a'', mysqlInfo), (''b'', esInfo)]) \<and>
   distinct (keys [(''b'', redisInfo), (''c'', futureInfo)]) \<and>
   map nodeKey (getConnectionNodes exampleImports exampleProvider) =
     [Some ''a'', Some ''b'', Some ''c''] \<and>
   length (getConnectionNodes exampleImports exampleProvider) = 3 \<and>
   getConnectionNodes exampleImports exampleProvider ! 1 =
     getNode exampleImports exampleProvider redisInfo ''b''"
proof -
  let ?g = "[(''a'', mysqlInfo), (''b'', esInfo)]"
  let ?w = "[(''b'', redisInfo), (''c'', futureInfo)]"
  let ?ns = "getConnectionNodes exampleImports exampleProvider"
  have g: "?g = mementoGet (globalState (context'' exampleProvider))
      (connectionKey exampleProvider) []"
    by (simp add: exampleProvider_def mementoGet_def)
  have w: "?w = mementoGet (workspaceState (context'' exampleProvider))
      (connectionKey exampleProvider) []"
    by (simp add: exampleProvider_def mementoGet_def)
  have dg: "distinct (keys ?g)" and dw: "distinct (keys ?w)"
    by (simp_all add: keys_def)
  note t = getConnectionNodes_one_per_key [OF g w dg dw, of exampleImports]
  from t have "length ?ns = card (set (keys ?g) \<union> set (keys ?w))"
    by blast
  then have l: "length ?ns = 3"
    by (simp add: keys_def card_insert_if)
  have k: "map nodeKey ?ns = [Some ''a'', Some ''b'', Some ''c'']"
    by (simp add: nodeKey_getConnectionNodes g [symmetric] w [symmetric] spread_def
        assignAll_def keys_def)
  from l have m: "?ns ! 1 \<in> set ?ns"
    by simp
  from l have "nodeKey (?ns ! 1) = map nodeKey ?ns ! 1"
    by simp
  then have "nodeKey (?ns ! 1) = Some ''b''"
    by (simp add: k)
  moreover have "(''b'', redisInfo) \<in> set ?w"
    by simp
  ultimately have b: "?ns ! 1 = getNode exampleImports exampleProvider redisInfo ''b''"
    using t m by blast
  from dg dw k l b show ?thesis by blast
qed


end
